theory Spec2Isabelle
  imports Main
begin

section \<open>The pull command of cursor-rules (src/bin/rules-pull.js)\<close>

text \<open>
  The script fetches the remote rules file, optionally backs up the local one and
  merges the two texts according to \<open>--merge-strategy\<close>. The model passes an explicit
  state (the files outside the temporary directory, the scratch file of the manual
  merge and the ordered trace of effects) through the script. Everything the script
  asks of its surroundings (git, the three-way-merge package, the prompts, the editor,
  the clock) is a field of the environment record.

  Directories are not modelled, and the destination and its backups are taken to lie
  outside the temporary directory \<open>.cursor-rules-temp\<close>. Reads, writes and prompts
  are taken to succeed; the failures the script handles itself (a failing git command, a
  missing remote file, a three-way merge that throws, an editor that does not start) are
  branches of the model. The trace records the file operations, the calls of the
  three-way merge, the prompts and the messages of \<open>spinner.info\<close>, \<open>warn\<close>,
  \<open>succeed\<close> and \<open>fail\<close>; it leaves out the running text of the spinner and the
  output of \<open>--verbose\<close>.
\<close>

subsection \<open>Text constants and templates\<close>

abbreviation NL :: string where
  "NL \<equiv> [CHR 0x0A]"

abbreviation APO :: string where
  "APO \<equiv> [CHR 0x27]"

text \<open>The bar of 51 equal signs used by the manual-merge document.\<close>

definition bar51 :: string where
  "bar51 = ''# ==================================================='' "

text \<open>Lines 139-141 and 201: remote, a separator comment, local.\<close>

definition separatorComment :: string where
  "separatorComment =
     NL @ NL @ ''# Local additions below'' @ NL @
     ''# ========================================'' @ NL @ NL"

definition concatContent :: "string \<Rightarrow> string \<Rightarrow> string" where
  "concatContent remoteContent localContent =
     remoteContent @ separatorComment @ localContent"

text \<open>Lines 269-276.\<close>

definition generateConflictMarkers :: "string \<Rightarrow> string \<Rightarrow> string" where
  "generateConflictMarkers remoteContent localContent =
     ''<<<<<<< REMOTE'' @ NL @ remoteContent @ NL @
     ''======='' @ NL @ localContent @ NL @
     ''>>>>>>> LOCAL'' @ NL"

text \<open>Lines 278-299.\<close>

definition sentinelHeading :: string where
  "sentinelHeading = ''# YOUR MERGED VERSION BELOW (edit as needed)''"

definition generateManualMergeFile :: "string \<Rightarrow> string \<Rightarrow> string" where
  "generateManualMergeFile remoteContent localContent =
     ''# MANUAL MERGE REQUIRED'' @ NL @
     bar51 @ NL @
     ''# Instructions:'' @ NL @
     ''# 1. Below you'' @ APO @ ''ll find both the remote and local versions'' @ NL @
     ''# 2. Edit this file to create the merged version you want'' @ NL @
     ''# 3. Save and close when you'' @ APO @ ''re done'' @ NL @
     bar51 @ NL @
     NL @
     ''# REMOTE VERSION'' @ NL @
     bar51 @ NL @
     remoteContent @ NL @
     NL @
     ''# LOCAL VERSION'' @ NL @
     bar51 @ NL @
     localContent @ NL @
     NL @
     sentinelHeading @ NL @
     bar51 @ NL @
     NL"

text \<open>\<open>`${Date.now()}`\<close>: a natural number in decimal.\<close>

function string_of_nat :: "nat \<Rightarrow> string" where
  "string_of_nat n =
     (if n < 10 then [''0123456789'' ! n]
      else string_of_nat (n div 10) @ [''0123456789'' ! (n mod 10)])"
  by pat_completeness auto
termination
  by (relation "measure id") auto

declare string_of_nat.simps [simp del]

subsection \<open>Options, environment, state\<close>

text \<open>The commander options the script reads (lines 21-38).\<close>

record options =
  path :: string
  dest :: string
  token :: "string option"
  backup :: bool
  mergeStrategy :: string
  force :: bool
  private_repo :: bool

text \<open>A call into JavaScript either throws (with the error's message) or returns.\<close>

datatype 'a js_result = Throws string | Returns 'a

text \<open>
  The object the three-way-merge package returns. Line 151 destructures
  \<open>result\<close> and \<open>conflict\<close> and reads nothing else: whatever more the object
  carries is the extension of the record.
\<close>

record merge_result =
  result :: string
  conflict :: bool

text \<open>The four values of the list prompt (lines 181-186).\<close>

datatype action = remote | local | concat_action | manual

text \<open>
  The surroundings of one run. \<open>nodeOk\<close> is the outcome of the semver comparison of
  line 16, \<open>gitError\<close> the message of a failing clone or checkout, \<open>remoteFile\<close> the
  content of the rules file in the checkout, \<open>editor\<close> what the user leaves in the
  scratch file (or the failure of the editor command).
\<close>

record 'm env =
  processVersion :: string
  enginesNode :: string
  nodeOk :: bool
  GITHUB_TOKEN :: "string option"
  gitError :: "string option"
  remoteFile :: "string option"
  now :: nat
  threeWayMerge :: "string \<Rightarrow> string \<Rightarrow> string \<Rightarrow> 'm merge_result_scheme js_result"
  promptAction :: action
  editor :: "string \<Rightarrow> string js_result"
  promptConfirmed :: bool

datatype level = Info | Warn | Succeed | Fail

datatype event =
    Spinner level string
  | ConsoleError string
  | CopyFileSync string string
  | WriteFileSync string string
  | WriteTemp string
  | ThreeWayMergeCall string string string
  | CreatePatch string string
  | PromptList
  | OpenEditor
  | PromptConfirm
  | Cleanup

record state =
  files :: "string \<rightharpoonup> string"
  temp :: "string option"
  trace :: "event list"

datatype status = Finished | Exit nat

definition emit :: "event \<Rightarrow> state \<Rightarrow> state" where
  "emit e s = s\<lparr>trace := trace s @ [e]\<rparr>"

definition spinner :: "level \<Rightarrow> string \<Rightarrow> state \<Rightarrow> state" where
  "spinner l m s = emit (Spinner l m) s"

definition writeFileSync :: "string \<Rightarrow> string \<Rightarrow> state \<Rightarrow> state" where
  "writeFileSync p c s = emit (WriteFileSync p c) (s\<lparr>files := (files s)(p \<mapsto> c)\<rparr>)"

definition copyFileSync :: "string \<Rightarrow> string \<Rightarrow> state \<Rightarrow> state" where
  "copyFileSync src dst s =
     emit (CopyFileSync src dst) (s\<lparr>files := (files s)(dst := files s src)\<rparr>)"

definition writeTemp :: "string \<Rightarrow> state \<Rightarrow> state" where
  "writeTemp c s = emit (WriteTemp c) (s\<lparr>temp := Some c\<rparr>)"

text \<open>Lines 262-267.\<close>

definition cleanup :: "state \<Rightarrow> state" where
  "cleanup s = emit Cleanup (s\<lparr>temp := None\<rparr>)"

subsection \<open>The interactive flow (lines 170-241)\<close>

text \<open>
  The switch over the answer of the list prompt (lines 191-240). The editor either fails
  to start (the inner catch of line 236) or leaves the user's text in the scratch file,
  which is read back only after the user confirms.
\<close>

definition applyAction :: "options \<Rightarrow> 'm env \<Rightarrow> string \<Rightarrow> string \<Rightarrow> state \<Rightarrow> state" where
  "applyAction options env remoteContent localContent s =
     (case promptAction env of
        remote \<Rightarrow>
          spinner Succeed ''Kept remote version (overwrote local).''
            (writeFileSync (dest options) remoteContent s)
      | local \<Rightarrow>
          spinner Succeed ''Kept local version (discarded remote).'' s
      | concat_action \<Rightarrow>
          spinner Succeed ''Concatenated remote and local versions.''
            (writeFileSync (dest options) (concatContent remoteContent localContent) s)
      | manual \<Rightarrow>
          (let manualMergeContent = generateManualMergeFile remoteContent localContent;
               s1 = writeTemp manualMergeContent s;
               s2 = spinner Info
                      ''Opening editor for manual merge. Please save and close when done.'' s1;
               s3 = emit OpenEditor s2
           in case editor env manualMergeContent of
                Throws m \<Rightarrow> spinner Fail (''Error opening editor: '' @ m) s3
              | Returns editedContent \<Rightarrow>
                  (let s4 = emit PromptConfirm (s3\<lparr>temp := Some editedContent\<rparr>)
                   in if promptConfirmed env
                      then spinner Succeed ''Manual merge completed.''
                             (writeFileSync (dest options) editedContent s4)
                      else spinner Fail ''Manual merge cancelled.'' s4)))"

text \<open>Lines 170-190: show the patch, ask how to proceed, apply the answer.\<close>

definition manualFlow :: "options \<Rightarrow> 'm env \<Rightarrow> string \<Rightarrow> string \<Rightarrow> state \<Rightarrow> state" where
  "manualFlow options env remoteContent localContent s =
     (let s1 = emit (CreatePatch localContent remoteContent) s;
          s2 = emit PromptList s1
      in applyAction options env remoteContent localContent s2)"

subsection \<open>The merge switch (lines 133-247)\<close>

text \<open>
  The try block of the smart case (lines 147-168). The common ancestor is the constant
  empty string. The catch reassigns \<open>options.mergeStrategy\<close>, so the options are
  returned with the state.
\<close>

definition smartMerge ::
  "options \<Rightarrow> 'm env \<Rightarrow> string \<Rightarrow> string \<Rightarrow> state \<Rightarrow> options \<times> state" where
  "smartMerge options env remoteContent localContent s =
     (let commonAncestor = [];
          s1 = emit (ThreeWayMergeCall commonAncestor remoteContent localContent) s
      in case threeWayMerge env commonAncestor remoteContent localContent of
           Returns r \<Rightarrow>
             if conflict r then
               (let s2 = spinner Warn ''Conflicts detected during smart merge.'' s1;
                    conflictContent = generateConflictMarkers remoteContent localContent;
                    s3 = writeFileSync (dest options) conflictContent s2;
                    s4 = spinner Info
                           (''Wrote file with conflict markers at: '' @ dest options) s3
                in (options,
                    spinner Info ''Please resolve conflicts manually and then commit.'' s4))
             else
               (options,
                spinner Succeed
                  (''Successfully merged files at: '' @ dest options @ '' (smart strategy)'')
                  (writeFileSync (dest options) (result r) s1))
         | Throws m \<Rightarrow>
             (options\<lparr>mergeStrategy := ''manual''\<rparr>,
              spinner Warn
                (''Smart merge failed: '' @ m @ ''. Falling back to manual merge.'') s1))"

text \<open>
  The switch over \<open>options.mergeStrategy\<close>. The interactive flow sits inside the smart
  case, after the try block; the manual case itself is a bare \<open>break\<close> (lines 244-246).
\<close>

definition mergeByStrategy ::
  "options \<Rightarrow> 'm env \<Rightarrow> string \<Rightarrow> string \<Rightarrow> state \<Rightarrow> state" where
  "mergeByStrategy options env remoteContent localContent s =
     (if mergeStrategy options = ''simple'' then
        spinner Succeed
          (''Merged remote rules with local rules at: '' @ dest options @
           '' (simple strategy)'')
          (writeFileSync (dest options) (concatContent remoteContent localContent) s)
      else if mergeStrategy options = ''smart'' then
        (case smartMerge options env remoteContent localContent s of
           (options', s1) \<Rightarrow>
             if mergeStrategy options' = ''manual''
             then manualFlow options' env remoteContent localContent s1
             else s1)
      else if mergeStrategy options = ''manual'' then s
      else s)"

subsection \<open>main (lines 65-260) and the script around it\<close>

definition backupPath :: "options \<Rightarrow> 'm env \<Rightarrow> string" where
  "backupPath options env = dest options @ ''.backup.'' @ string_of_nat (now env)"

text \<open>
  Lines 102-118: read the local file when there is one and copy it to the backup path
  when backups are enabled.
\<close>

definition backupLocal :: "options \<Rightarrow> 'm env \<Rightarrow> state \<Rightarrow> state" where
  "backupLocal options env s =
     (if files s (dest options) \<noteq> None \<and> backup options then
        spinner Info (''Created backup at: '' @ backupPath options env)
          (copyFileSync (dest options) (backupPath options env) s)
      else s)"

text \<open>
  A failing git command throws into the outer catch (lines 251-256), which ends the
  process with status 1; \<open>process.exit\<close> does not run the finally block.
\<close>

definition main :: "options \<Rightarrow> 'm env \<Rightarrow> state \<Rightarrow> status \<times> state" where
  "main options env s =
     (case gitError env of
        Some m \<Rightarrow> (Exit 1, spinner Fail (''Error pulling rules: '' @ m) s)
      | None \<Rightarrow>
     (case remoteFile env of
        None \<Rightarrow> (Exit 1, spinner Fail (''Remote rules file not found: '' @ path options) s)
      | Some remoteContent \<Rightarrow>
          (let localFileExists = (files s (dest options) \<noteq> None);
               localContent = (case files s (dest options) of None \<Rightarrow> [] | Some c \<Rightarrow> c);
               s1 = backupLocal options env s
           in if \<not> localFileExists \<or> force options then
                (let s2 = writeFileSync (dest options) remoteContent s1;
                     s3 = spinner Succeed
                            ((if localFileExists then ''Overwrote'' else ''Created new'') @
                             '' local rules file at: '' @ dest options) s2
                 in (Finished,
                     cleanup (spinner Succeed ''Successfully pulled rules from GitHub'' s3)))
              else if localContent = remoteContent then
                (Finished,
                 cleanup (cleanup
                   (spinner Succeed ''Local file is already up to date. No changes needed.''
                      s1)))
              else
                (let s2 = mergeByStrategy options env remoteContent localContent s1
                 in (Finished,
                     cleanup (spinner Succeed ''Successfully pulled rules from GitHub'' s2))))))"

text \<open>
  The top level of the script (lines 13-63): the version check, the token check, the
  validation of the strategy, then the fresh temporary directory and \<open>main\<close>.
\<close>

definition truthy :: "string option \<Rightarrow> bool" where
  "truthy t = (case t of None \<Rightarrow> False | Some v \<Rightarrow> v \<noteq> [])"

definition invalidStrategyMessage :: "string \<Rightarrow> string" where
  "invalidStrategyMessage strategy =
     ''Invalid merge strategy: '' @ strategy @ ''. Use '' @
     APO @ ''simple'' @ APO @ '', '' @ APO @ ''smart'' @ APO @ '', or '' @
     APO @ ''manual'' @ APO @ ''.''"

definition rules_pull :: "options \<Rightarrow> 'm env \<Rightarrow> state \<Rightarrow> status \<times> state" where
  "rules_pull options env s =
     (if \<not> nodeOk env then
        (Exit 1,
         emit (ConsoleError
           (''You are using Node '' @ processVersion env @ '', but this tool requires Node '' @
            enginesNode env @ '' or higher.'')) s)
      else if private_repo options \<and>
              \<not> truthy (if truthy (token options) then token options else GITHUB_TOKEN env) then
        (Exit 1,
         emit (ConsoleError
           (''GitHub token is required for private repositories. Provide it with --token '' @
            ''or set GITHUB_TOKEN environment variable.'')) s)
      else if mergeStrategy options \<notin> set [''simple'', ''smart'', ''manual''] then
        (Exit 1, emit (ConsoleError (invalidStrategyMessage (mergeStrategy options))) s)
      else main options env (s\<lparr>temp := None\<rparr>))"

subsection \<open>Reading a run in the vocabulary of the specification\<close>

text \<open>
  The merged text of a run is the content of the destination afterwards; a run reports
  a conflict when it prints the warning of line 154; it reaches the decision step when it
  shows the list prompt.
\<close>

definition mergedText :: "options \<Rightarrow> state \<Rightarrow> string option" where
  "mergedText options s = files s (dest options)"

definition hasConflict :: "state \<Rightarrow> bool" where
  "hasConflict s =
     (Spinner Warn ''Conflicts detected during smart merge.'' \<in> set (trace s))"

definition prompted :: "state \<Rightarrow> bool" where
  "prompted s = (PromptList \<in> set (trace s))"

fun isDestWrite :: "string \<Rightarrow> event \<Rightarrow> bool" where
  "isDestWrite d (WriteFileSync p c) = (p = d)"
| "isDestWrite d _ = False"

fun isMergeCall :: "event \<Rightarrow> bool" where
  "isMergeCall (ThreeWayMergeCall b r l) = True"
| "isMergeCall _ = False"

definition destWrites :: "options \<Rightarrow> state \<Rightarrow> event list" where
  "destWrites options s = filter (isDestWrite (dest options)) (trace s)"

definition mergeCalls :: "state \<Rightarrow> event list" where
  "mergeCalls s = filter isMergeCall (trace s)"

text \<open>A run starts with an empty trace and no scratch file.\<close>

definition start :: "(string \<rightharpoonup> string) \<Rightarrow> state" where
  "start fs = \<lparr>files = fs, temp = None, trace = []\<rparr>"

subsection \<open>Conflict blocks in a text\<close>

text \<open>\<open>text.split('\n')\<close>: the lines of a text; the empty text has one empty line.\<close>

fun splitLines :: "string \<Rightarrow> string list" where
  "splitLines [] = [[]]"
| "splitLines (c # cs) =
     (if c = CHR 0x0A then [] # splitLines cs
      else (case splitLines cs of [] \<Rightarrow> [[c]] | l # ls \<Rightarrow> (c # l) # ls))"

text \<open>
  A well-formed conflict block is an opening marker line, later a separator line, later
  a closing marker line, with no opening or closing marker line in between. The scanner
  reads the lines from the top and counts the blocks it closes.
\<close>

definition openMarker :: string where
  "openMarker = ''<<<<<<< REMOTE''"

definition sepMarker :: string where
  "sepMarker = ''=======''"

definition closeMarker :: string where
  "closeMarker = ''>>>>>>> LOCAL''"

datatype scan = Outside | InRemote | InLocal

fun scanBlocks :: "scan \<Rightarrow> string list \<Rightarrow> nat" where
  "scanBlocks st [] = 0"
| "scanBlocks st (l # ls) =
     (if l = openMarker then scanBlocks InRemote ls
      else if l = closeMarker then (if st = InLocal then 1 else 0) + scanBlocks Outside ls
      else if l = sepMarker \<and> st = InRemote then scanBlocks InLocal ls
      else scanBlocks st ls)"

definition countBlocks :: "string \<Rightarrow> nat" where
  "countBlocks text = scanBlocks Outside (splitLines text)"

definition plainText :: "string \<Rightarrow> bool" where
  "plainText text =
     (openMarker \<notin> set (splitLines text) \<and> closeMarker \<notin> set (splitLines text))"

subsection \<open>The manual-merge document as the specification reads it\<close>

text \<open>
  The specification's reading of an edited manual-merge document, for comparison with
  what lines 229-232 do: the text after the first occurrence of the sentinel heading,
  and a failure when the heading is missing.
\<close>

datatype core_error = InvalidStrategy | EmptyDecision | MalformedManualMerge

fun startsWith :: "string \<Rightarrow> string \<Rightarrow> bool" where
  "startsWith [] t = True"
| "startsWith (p # ps) [] = False"
| "startsWith (p # ps) (c # cs) = (p = c \<and> startsWith ps cs)"

fun afterFirst :: "string \<Rightarrow> string \<Rightarrow> string option" where
  "afterFirst pat [] = (if pat = [] then Some [] else None)"
| "afterFirst pat (c # cs) =
     (if startsWith pat (c # cs) then Some (drop (length pat) (c # cs))
      else afterFirst pat cs)"

definition spec_parseManualMerge :: "string \<Rightarrow> core_error + string" where
  "spec_parseManualMerge doc =
     (case afterFirst sentinelHeading doc of
        None \<Rightarrow> Inl MalformedManualMerge
      | Some t \<Rightarrow> Inr t)"

subsection \<open>The decisions of the specification\<close>

text \<open>
  The specification names four user decisions. In the script a decision is the answer to
  the list prompt; for the fourth it is the text the user leaves in the scratch file,
  followed by the confirmation.
\<close>

datatype UserDecision = KeepRemote | KeepLocal | Concatenate | EditManually string

definition decided :: "UserDecision \<Rightarrow> 'm env \<Rightarrow> 'm env" where
  "decided d env =
     (case d of
        KeepRemote \<Rightarrow> env\<lparr>promptAction := remote\<rparr>
      | KeepLocal \<Rightarrow> env\<lparr>promptAction := local\<rparr>
      | Concatenate \<Rightarrow> env\<lparr>promptAction := concat_action\<rparr>
      | EditManually finalText \<Rightarrow>
          env\<lparr>promptAction := manual, editor := (\<lambda>doc. Returns finalText),
              promptConfirmed := True\<rparr>)"

subsection \<open>Sample inputs\<close>

text \<open>The defaults of lines 24-34.\<close>

definition defaults :: options where
  "defaults =
     \<lparr>path = ''rules/reactrouter/standard/always-follow.mdc'',
      dest = ''.cursor/rules/always-follow.mdc'',
      token = None, backup = True, mergeStrategy = ''smart'', force = False,
      private_repo = False\<rparr>"

text \<open>
  A surrounding where git succeeds, the remote file holds the given text and the
  three-way merge is the given function. The user answers the list prompt with the given
  action, leaves the given text in the scratch file and confirms.
\<close>

definition world ::
  "string \<Rightarrow> (string \<Rightarrow> string \<Rightarrow> string \<Rightarrow> 'm merge_result_scheme js_result) \<Rightarrow> action \<Rightarrow>
   string js_result \<Rightarrow> 'm env" where
  "world remoteContent lib answer edited =
     \<lparr>processVersion = ''v20.11.0'', enginesNode = ''>=14.0.0'', nodeOk = True,
      GITHUB_TOKEN = None, gitError = None, remoteFile = Some remoteContent,
      now = 1730000000000, threeWayMerge = lib, promptAction = answer,
      editor = (\<lambda>doc. edited), promptConfirmed = True\<rparr>"

text \<open>
  Two stand-ins for the value the script requires from the three-way-merge package.
  \<open>brokenMerge\<close> is the value as the script finds it with three-way-merge 0.1.0: it is
  not a function, so the call of line 151 throws a TypeError with this message.
  \<open>wholeTextMerge\<close> is a callable merge at the granularity of the whole text, for the
  runs that never call it.
\<close>

definition brokenMerge :: "string \<Rightarrow> string \<Rightarrow> string \<Rightarrow> merge_result js_result" where
  "brokenMerge base remoteContent localContent = Throws ''threeWayMerge is not a function''"

definition wholeTextMerge :: "string \<Rightarrow> string \<Rightarrow> string \<Rightarrow> merge_result js_result" where
  "wholeTextMerge base remoteContent localContent =
     (if remoteContent = localContent \<or> base = localContent then
        Returns \<lparr>result = remoteContent, conflict = False\<rparr>
      else if base = remoteContent then
        Returns \<lparr>result = localContent, conflict = False\<rparr>
      else
        Returns \<lparr>result = remoteContent, conflict = True\<rparr>)"





definition editedDocument :: string where
  "editedDocument = generateManualMergeFile ''new'' ''old'' @ ''merged''"

section \<open>Properties\<close>

subsection \<open>What each operation does to the state\<close>

lemma emit_sel [simp]:
  "files (emit e s) = files s" "temp (emit e s) = temp s" "trace (emit e s) = trace s @ [e]"
  by (simp_all add: emit_def)

lemma spinner_sel [simp]:
  "files (spinner l m s) = files s" "temp (spinner l m s) = temp s"
  "trace (spinner l m s) = trace s @ [Spinner l m]"
  by (simp_all add: spinner_def)

lemma writeFileSync_sel [simp]:
  "files (writeFileSync p c s) = (files s)(p \<mapsto> c)" "temp (writeFileSync p c s) = temp s"
  "trace (writeFileSync p c s) = trace s @ [WriteFileSync p c]"
  by (simp_all add: writeFileSync_def)

lemma copyFileSync_sel [simp]:
  "files (copyFileSync a b s) = (files s)(b := files s a)" "temp (copyFileSync a b s) = temp s"
  "trace (copyFileSync a b s) = trace s @ [CopyFileSync a b]"
  by (simp_all add: copyFileSync_def)

lemma writeTemp_sel [simp]:
  "files (writeTemp c s) = files s" "temp (writeTemp c s) = Some c"
  "trace (writeTemp c s) = trace s @ [WriteTemp c]"
  by (simp_all add: writeTemp_def)

lemma cleanup_sel [simp]:
  "files (cleanup s) = files s" "temp (cleanup s) = None"
  "trace (cleanup s) = trace s @ [Cleanup]"
  by (simp_all add: cleanup_def)

lemma start_sel [simp]:
  "files (start fs) = fs" "temp (start fs) = None" "trace (start fs) = []"
  by (simp_all add: start_def)

lemma world_sel [simp]:
  "nodeOk (world r lib a e) = True" "GITHUB_TOKEN (world r lib a e) = None"
  "gitError (world r lib a e) = None" "remoteFile (world r lib a e) = Some r"
  "now (world r lib a e) = 1730000000000" "threeWayMerge (world r lib a e) = lib"
  "promptAction (world r lib a e) = a" "editor (world r lib a e) doc = e"
  "promptConfirmed (world r lib a e) = True"
  by (simp_all add: world_def)

lemma defaults_sel [simp]:
  "dest defaults = ''.cursor/rules/always-follow.mdc''" "token defaults = None"
  "backup defaults = True" "mergeStrategy defaults = ''smart''" "force defaults = False"
  "private_repo defaults = False"
  by (simp_all add: defaults_def)

subsection \<open>The backup\<close>

lemma backupPath_neq_dest [simp]:
  "backupPath options env \<noteq> dest options" "dest options \<noteq> backupPath options env"
  by (simp_all add: backupPath_def)

lemma backupLocal_files_dest [simp]:
  "files (backupLocal options env s) (dest options) = files s (dest options)"
  by (simp add: backupLocal_def)

lemma backupLocal_trace:
  "trace (backupLocal options env s) =
     trace s @
     (if files s (dest options) \<noteq> None \<and> backup options
      then [CopyFileSync (dest options) (backupPath options env),
            Spinner Info (''Created backup at: '' @ backupPath options env)]
      else [])"
  by (simp add: backupLocal_def)

lemma backupLocal_files_backup:
  "files s (dest options) = Some l \<Longrightarrow> backup options \<Longrightarrow>
   files (backupLocal options env s) (backupPath options env) = Some l"
  by (simp add: backupLocal_def)

subsection \<open>Only the destination is written, and the trace only grows\<close>

lemma applyAction_frame:
  "p \<noteq> dest options \<Longrightarrow> files (applyAction options env r l s) p = files s p"
  by (simp add: applyAction_def Let_def split: action.splits js_result.splits)

lemma applyAction_trace: "\<exists>rest. trace (applyAction options env r l s) = trace s @ rest"
  by (simp add: applyAction_def Let_def split: action.splits js_result.splits)

lemma manualFlow_frame:
  "p \<noteq> dest options \<Longrightarrow> files (manualFlow options env r l s) p = files s p"
  by (simp add: manualFlow_def Let_def applyAction_frame)

lemma manualFlow_trace: "\<exists>rest. trace (manualFlow options env r l s) = trace s @ rest"
  using applyAction_trace [of options env r l "emit PromptList (emit (CreatePatch l r) s)"]
  by (auto simp add: manualFlow_def Let_def)

lemma smartMerge_dest: "dest (fst (smartMerge options env r l s)) = dest options"
  by (simp add: smartMerge_def Let_def split: js_result.splits)

lemma smartMerge_frame:
  "p \<noteq> dest options \<Longrightarrow> files (snd (smartMerge options env r l s)) p = files s p"
  by (simp add: smartMerge_def Let_def split: js_result.splits)

lemma smartMerge_trace: "\<exists>rest. trace (snd (smartMerge options env r l s)) = trace s @ rest"
  by (simp add: smartMerge_def Let_def split: js_result.splits)

lemma mergeByStrategy_frame:
  "p \<noteq> dest options \<Longrightarrow> files (mergeByStrategy options env r l s) p = files s p"
  using smartMerge_dest [of options env r l s] smartMerge_frame [of p options env r l s]
  by (auto simp add: mergeByStrategy_def manualFlow_frame split: prod.splits)

lemma mergeByStrategy_trace:
  "\<exists>rest. trace (mergeByStrategy options env r l s) = trace s @ rest"
proof -
  obtain o' s1 where sm: "smartMerge options env r l s = (o', s1)"
    by (cases "smartMerge options env r l s")
  from smartMerge_trace [of options env r l s] sm
  obtain r1 where r1: "trace s1 = trace s @ r1" by auto
  from manualFlow_trace [of o' env r l s1]
  obtain r2 where r2: "trace (manualFlow o' env r l s1) = trace s1 @ r2" by auto
  show ?thesis
    by (simp add: mergeByStrategy_def sm r1 r2)
qed

subsection \<open>Identical texts\<close>

text \<open>
  C3. When the local file holds the same text \<open>x\<close> as the remote file, the run ends
  normally with \<open>x\<close> at the destination and no conflict, whatever the strategy: the
  three-way merge is not called, nothing is asked, and unless \<open>--force\<close> is given the
  destination is not written at all (neither concatenated nor rewritten).
\<close>

theorem identical_texts_fast_path:
  assumes "gitError env = None" and "remoteFile env = Some x" and "fs (dest options) = Some x"
  shows "fst (main options env (start fs)) = Finished \<and>
     mergedText options (snd (main options env (start fs))) = Some x \<and>
     \<not> hasConflict (snd (main options env (start fs))) \<and>
     \<not> prompted (snd (main options env (start fs))) \<and>
     mergeCalls (snd (main options env (start fs))) = [] \<and>
     (\<not> force options \<longrightarrow> destWrites options (snd (main options env (start fs))) = [])"
  using assms
  by (simp add: main_def Let_def mergedText_def hasConflict_def prompted_def mergeCalls_def
      destWrites_def backupLocal_trace)

theorem identical_texts_fast_path_witness:
  "fst (main (defaults\<lparr>mergeStrategy := ''simple''\<rparr>)
          (world ''foo'' wholeTextMerge remote (Returns []))
          (start [dest defaults \<mapsto> ''foo''])) = Finished \<and>
   mergedText (defaults\<lparr>mergeStrategy := ''simple''\<rparr>)
     (snd (main (defaults\<lparr>mergeStrategy := ''simple''\<rparr>)
          (world ''foo'' wholeTextMerge remote (Returns []))
          (start [dest defaults \<mapsto> ''foo'']))) = Some ''foo'' \<and>
   destWrites (defaults\<lparr>mergeStrategy := ''simple''\<rparr>)
     (snd (main (defaults\<lparr>mergeStrategy := ''simple''\<rparr>)
          (world ''foo'' wholeTextMerge remote (Returns []))
          (start [dest defaults \<mapsto> ''foo'']))) = []"
  using identical_texts_fast_path
    [of "world ''foo'' wholeTextMerge remote (Returns [])" "''foo''"
        "[dest defaults \<mapsto> ''foo'']" "defaults\<lparr>mergeStrategy := ''simple''\<rparr>"]
  by simp

subsection \<open>The backup comes first\<close>

text \<open>
  C10. When the local file exists and backups are enabled, a run that fetched the remote
  file begins by copying the local file to \<open>dest.backup.<now>\<close>: the copy is the first
  effect of the run, before the texts are compared or merged, and the backup still holds
  the local text at the end. This also happens when the two texts are identical and the
  destination is never written.
\<close>

theorem backup_before_merge:
  assumes "gitError env = None" and "remoteFile env = Some r" and "fs (dest options) = Some l"
    and "backup options"
  shows "(\<exists>rest. trace (snd (main options env (start fs))) =
            CopyFileSync (dest options) (dest options @ ''.backup.'' @ string_of_nat (now env))
            # rest) \<and>
         files (snd (main options env (start fs)))
           (dest options @ ''.backup.'' @ string_of_nat (now env)) = Some l \<and>
         (l = r \<and> \<not> force options \<longrightarrow>
            destWrites options (snd (main options env (start fs))) = [])"
proof -
  let ?s1 = "backupLocal options env (start fs)"
  have t1: "trace ?s1 = [CopyFileSync (dest options) (backupPath options env),
            Spinner Info (''Created backup at: '' @ backupPath options env)]"
    using assms by (simp add: backupLocal_trace)
  have f1: "files ?s1 (backupPath options env) = Some l"
    using assms by (simp add: backupLocal_files_backup)
  obtain rest where rest: "trace (mergeByStrategy options env r l ?s1) = trace ?s1 @ rest"
    using mergeByStrategy_trace by blast
  have "(\<exists>rest. trace (snd (main options env (start fs))) =
            CopyFileSync (dest options) (backupPath options env) # rest) \<and>
         files (snd (main options env (start fs))) (backupPath options env) = Some l \<and>
         (l = r \<and> \<not> force options \<longrightarrow>
            destWrites options (snd (main options env (start fs))) = [])"
    using assms t1 f1 rest
    by (simp add: main_def Let_def destWrites_def mergeByStrategy_frame)
  then show ?thesis
    by (simp add: backupPath_def)
qed

theorem backup_before_merge_witness:
  "files (snd (main defaults (world ''foo'' wholeTextMerge remote (Returns []))
                 (start [dest defaults \<mapsto> ''foo''])))
     ''.cursor/rules/always-follow.mdc.backup.1730000000000'' = Some ''foo'' \<and>
   destWrites defaults
     (snd (main defaults (world ''foo'' wholeTextMerge remote (Returns []))
             (start [dest defaults \<mapsto> ''foo'']))) = []"
  using backup_before_merge
    [of "world ''foo'' wholeTextMerge remote (Returns [])" "''foo''"
        "[dest defaults \<mapsto> ''foo'']" defaults "''foo''"]
  by (simp add: string_of_nat.simps)

subsection \<open>The simple strategy\<close>

text \<open>
  C4, as amended. With the simple strategy and an existing local file (no \<open>--force\<close>),
  the run never reports a conflict. When the two texts differ, the destination receives
  remote, then the separator comment, then local, so it contains both texts whole and in
  that order. When they are identical the destination keeps the one text and is not
  written: the fast path comes before the switch.
\<close>

theorem simple_strategy_concatenates:
  assumes "gitError env = None" and "remoteFile env = Some r" and "fs (dest options) = Some l"
    and "\<not> force options" and "mergeStrategy options = ''simple''"
  shows "fst (main options env (start fs)) = Finished \<and>
     \<not> hasConflict (snd (main options env (start fs))) \<and>
     (l \<noteq> r \<longrightarrow>
        mergedText options (snd (main options env (start fs))) = Some (r @ separatorComment @ l) \<and>
        (\<exists>a b c. mergedText options (snd (main options env (start fs))) = Some (a @ r @ b @ l @ c))) \<and>
     (l = r \<longrightarrow> mergedText options (snd (main options env (start fs))) = Some r \<and>
        destWrites options (snd (main options env (start fs))) = [])"
proof -
  have ex: "\<exists>a b c. r @ separatorComment @ l = a @ r @ b @ l @ c"
    by (rule exI [of _ "[]"], rule exI [of _ separatorComment], rule exI [of _ "[]"]) simp
  show ?thesis
    using assms ex
    by (simp add: main_def Let_def mergedText_def hasConflict_def destWrites_def
        backupLocal_trace mergeByStrategy_def concatContent_def)
qed

theorem simple_strategy_concatenates_witness:
  "mergedText (defaults\<lparr>mergeStrategy := ''simple''\<rparr>)
     (snd (main (defaults\<lparr>mergeStrategy := ''simple''\<rparr>)
          (world ''new'' wholeTextMerge remote (Returns []))
          (start [dest defaults \<mapsto> ''old''])))
   = Some (''new'' @ separatorComment @ ''old'')"
  using simple_strategy_concatenates
    [of "world ''new'' wholeTextMerge remote (Returns [])" "''new''"
        "[dest defaults \<mapsto> ''old'']" "defaults\<lparr>mergeStrategy := ''simple''\<rparr>" "''old''"]
  by simp

theorem simple_identical_counterexample:
  "mergedText (defaults\<lparr>mergeStrategy := ''simple''\<rparr>)
     (snd (main (defaults\<lparr>mergeStrategy := ''simple''\<rparr>)
          (world ''foo'' wholeTextMerge remote (Returns []))
          (start [dest defaults \<mapsto> ''foo''])))
   = Some ''foo'' \<and>
   Some ''foo'' \<noteq> Some (concatContent ''foo'' ''foo'')"
  by (simp add: main_def Let_def mergedText_def backupLocal_def concatContent_def)

subsection \<open>The manual strategy\<close>

text \<open>
  C5. What the script does with \<open>--merge-strategy manual\<close> when the texts differ: the
  manual case of the switch is a bare break, so the three-way merge is not attempted, the
  list prompt never appears, the destination is not written and keeps the local text,
  and the run ends as a success.
\<close>

theorem manual_strategy_never_prompts:
  assumes "gitError env = None" and "remoteFile env = Some r" and "fs (dest options) = Some l"
    and "\<not> force options" and "mergeStrategy options = ''manual''"
  shows "fst (main options env (start fs)) = Finished \<and>
     mergeCalls (snd (main options env (start fs))) = [] \<and>
     \<not> prompted (snd (main options env (start fs))) \<and>
     destWrites options (snd (main options env (start fs))) = [] \<and>
     mergedText options (snd (main options env (start fs))) = Some l"
  using assms
  by (simp add: main_def Let_def mergedText_def prompted_def destWrites_def mergeCalls_def
      backupLocal_trace mergeByStrategy_def)

theorem manual_strategy_never_prompts_witness:
  "\<not> prompted
     (snd (main (defaults\<lparr>mergeStrategy := ''manual''\<rparr>)
          (world ''remote rules'' wholeTextMerge remote (Returns []))
          (start [dest defaults \<mapsto> ''local rules'']))) \<and>
   mergeCalls
     (snd (main (defaults\<lparr>mergeStrategy := ''manual''\<rparr>)
          (world ''remote rules'' wholeTextMerge remote (Returns []))
          (start [dest defaults \<mapsto> ''local rules'']))) = [] \<and>
   mergedText (defaults\<lparr>mergeStrategy := ''manual''\<rparr>)
     (snd (main (defaults\<lparr>mergeStrategy := ''manual''\<rparr>)
          (world ''remote rules'' wholeTextMerge remote (Returns []))
          (start [dest defaults \<mapsto> ''local rules'']))) = Some ''local rules''"
  using manual_strategy_never_prompts
    [of "world ''remote rules'' wholeTextMerge remote (Returns [])" "''remote rules''"
        "[dest defaults \<mapsto> ''local rules'']" "defaults\<lparr>mergeStrategy := ''manual''\<rparr>"
        "''local rules''"]
  by simp

subsection \<open>Applying a decision\<close>

text \<open>
  C6. Applying a decision is a total function of the decision: KeepRemote leaves the
  remote text at the destination, KeepLocal the local text, Concatenate the text the
  simple strategy writes, and EditManually the edited text exactly as it is, for every
  text (the empty one included, since nothing is validated).
\<close>

theorem applyDecision_total:
  assumes "files s (dest options) = Some l"
  shows "mergedText options (applyAction options (decided d env) r l s) =
     Some (case d of
             KeepRemote \<Rightarrow> r
           | KeepLocal \<Rightarrow> l
           | Concatenate \<Rightarrow> r @ separatorComment @ l
           | EditManually finalText \<Rightarrow> finalText) \<and>
     mergedText options (applyAction options (decided Concatenate env) r l s) =
     mergedText options (mergeByStrategy (options\<lparr>mergeStrategy := ''simple''\<rparr>) env r l s)"
  using assms
  by (cases d)
     (simp_all add: decided_def applyAction_def mergedText_def Let_def mergeByStrategy_def
        concatContent_def)

theorem applyDecision_total_witness:
  "mergedText defaults
     (applyAction defaults
        (decided (EditManually ''merged by hand'')
           (world ''new'' wholeTextMerge remote (Returns [])))
        ''new'' ''old'' (start [dest defaults \<mapsto> ''old''])) = Some ''merged by hand'' \<and>
   mergedText defaults
     (applyAction defaults
        (decided KeepLocal (world ''new'' wholeTextMerge remote (Returns [])))
        ''new'' ''old'' (start [dest defaults \<mapsto> ''old''])) = Some ''old''"
  using applyDecision_total
    [of "start [dest defaults \<mapsto> ''old'']" defaults "''old''"
        "EditManually ''merged by hand''"
        "world ''new'' wholeTextMerge remote (Returns [])" "''new''"]
    applyDecision_total
    [of "start [dest defaults \<mapsto> ''old'']" defaults "''old''" KeepLocal
        "world ''new'' wholeTextMerge remote (Returns [])" "''new''"]
  by simp

subsection \<open>An unknown strategy\<close>

lemma main_not_console_error:
  "trace (snd (main options env s)) \<noteq> trace s @ [ConsoleError m]"
proof -
  obtain rest where rest:
    "\<And>r l. trace (mergeByStrategy options env r l (backupLocal options env s)) =
       trace (backupLocal options env s) @ rest r l"
    using mergeByStrategy_trace [of options env _ _ "backupLocal options env s"] by metis
  show ?thesis
    by (simp add: main_def Let_def rest backupLocal_trace split: option.splits)
qed

text \<open>
  C8, as amended. Once the version check and the token check have passed, the script
  stops on the invalid-strategy message exactly when the strategy is none of simple,
  smart and manual. It stops by ending the process with status 1, before any file is
  read or written.
\<close>

theorem invalid_strategy_exits:
  assumes "nodeOk env"
    and "\<not> (private_repo options \<and>
            \<not> truthy (if truthy (token options) then token options else GITHUB_TOKEN env))"
  shows "(rules_pull options env s =
            (Exit 1, emit (ConsoleError (invalidStrategyMessage (mergeStrategy options))) s))
         = (mergeStrategy options \<notin> {''simple'', ''smart'', ''manual''})"
proof (cases "mergeStrategy options \<in> {''simple'', ''smart'', ''manual''}")
  case True
  have "snd (main options env (s\<lparr>temp := None\<rparr>)) \<noteq>
        emit (ConsoleError (invalidStrategyMessage (mergeStrategy options))) s"
  proof
    assume "snd (main options env (s\<lparr>temp := None\<rparr>)) =
        emit (ConsoleError (invalidStrategyMessage (mergeStrategy options))) s"
    then have "trace (snd (main options env (s\<lparr>temp := None\<rparr>))) =
        trace (s\<lparr>temp := None\<rparr>) @ [ConsoleError (invalidStrategyMessage (mergeStrategy options))]"
      by simp
    then show False
      using main_not_console_error by blast
  qed
  then have "main options env (s\<lparr>temp := None\<rparr>) \<noteq>
        (Exit 1, emit (ConsoleError (invalidStrategyMessage (mergeStrategy options))) s)"
    by (cases "main options env (s\<lparr>temp := None\<rparr>)") auto
  with True assms show ?thesis
    by (auto simp add: rules_pull_def)
next
  case False
  with assms show ?thesis
    by (auto simp add: rules_pull_def invalidStrategyMessage_def)
qed

theorem invalid_strategy_exits_witness:
  "rules_pull (defaults\<lparr>mergeStrategy := ''fancy''\<rparr>)
     (world ''new'' wholeTextMerge remote (Returns []))
     (start [dest defaults \<mapsto> ''old'']) =
   (Exit 1,
    emit (ConsoleError (invalidStrategyMessage ''fancy'')) (start [dest defaults \<mapsto> ''old'']))"
  using invalid_strategy_exits
    [of "world ''new'' wholeTextMerge remote (Returns [])"
        "defaults\<lparr>mergeStrategy := ''fancy''\<rparr>" "start [dest defaults \<mapsto> ''old'']"]
  by simp

theorem invalid_strategy_fatal_counterexample:
  "fst (rules_pull (defaults\<lparr>mergeStrategy := ''fancy''\<rparr>)
          (world ''new'' wholeTextMerge remote (Returns []))
          (start [dest defaults \<mapsto> ''old''])) = Exit 1"
  by (simp add: rules_pull_def)

subsection \<open>A three-way merge that throws\<close>

text \<open>
  C9. When the three-way merge throws during the smart strategy, the run does not fail:
  after a warning line the strategy becomes manual, the patch is shown and the list
  prompt is reached with the destination still unwritten and holding the local text; the
  run then ends normally with whatever the answer to the prompt writes.
\<close>

theorem smart_failure_falls_back:
  assumes "gitError env = None" and "remoteFile env = Some r" and "fs (dest options) = Some l"
    and "l \<noteq> r" and "\<not> force options" and "mergeStrategy options = ''smart''"
    and "threeWayMerge env [] r l = Throws m"
  shows "\<exists>sp. main options env (start fs) =
            (Finished,
             cleanup (spinner Succeed ''Successfully pulled rules from GitHub''
               (applyAction (options\<lparr>mergeStrategy := ''manual''\<rparr>) env r l sp))) \<and>
          trace sp =
            trace (backupLocal options env (start fs)) @
            [ThreeWayMergeCall [] r l,
             Spinner Warn (''Smart merge failed: '' @ m @ ''. Falling back to manual merge.''),
             CreatePatch l r, PromptList] \<and>
          destWrites options sp = [] \<and>
          mergedText options sp = Some l \<and>
          \<not> hasConflict sp"
proof -
  let ?sp = "emit PromptList (emit (CreatePatch l r)
      (spinner Warn (''Smart merge failed: '' @ m @ ''. Falling back to manual merge.'')
         (emit (ThreeWayMergeCall [] r l) (backupLocal options env (start fs)))))"
  have run: "main options env (start fs) =
      (Finished,
       cleanup (spinner Succeed ''Successfully pulled rules from GitHub''
         (applyAction (options\<lparr>mergeStrategy := ''manual''\<rparr>) env r l ?sp)))"
    using assms
    by (simp add: main_def Let_def mergeByStrategy_def smartMerge_def manualFlow_def)
  have tr: "trace ?sp =
      trace (backupLocal options env (start fs)) @
      [ThreeWayMergeCall [] r l,
       Spinner Warn (''Smart merge failed: '' @ m @ ''. Falling back to manual merge.''),
       CreatePatch l r, PromptList]"
    by simp
  have quiet: "destWrites options ?sp = [] \<and> mergedText options ?sp = Some l \<and> \<not> hasConflict ?sp"
    using assms
    by (simp add: destWrites_def mergedText_def hasConflict_def backupLocal_trace)
  from run tr quiet show ?thesis
    by blast
qed

theorem smart_failure_falls_back_witness:
  "mergedText defaults
     (snd (main defaults (world ''new'' brokenMerge remote (Returns []))
             (start [dest defaults \<mapsto> ''old'']))) = Some ''new'' \<and>
   prompted
     (snd (main defaults (world ''new'' brokenMerge remote (Returns []))
             (start [dest defaults \<mapsto> ''old''])))"
  using smart_failure_falls_back
    [of "world ''new'' brokenMerge remote (Returns [])" "''new''"
        "[dest defaults \<mapsto> ''old'']" defaults "''old''" "''threeWayMerge is not a function''"]
  by (auto simp add: brokenMerge_def applyAction_def mergedText_def prompted_def)

subsection \<open>Lines and conflict blocks\<close>

lemma splitLines_nonempty [simp]: "splitLines t \<noteq> []"
  by (induction t) (auto split: list.splits)

lemma splitLines_append_nl:
  "splitLines (a @ CHR 0x0A # b) = splitLines a @ splitLines b"
proof (induction a)
  case Nil
  show ?case by simp
next
  case (Cons c a)
  obtain x xs where sp: "splitLines a = x # xs"
    by (cases "splitLines a") simp_all
  with Cons show ?case by simp
qed

lemma splitLines_plain: "CHR 0x0A \<notin> set a \<Longrightarrow> splitLines a = [a]"
  by (induction a) auto

lemma splitLines_generateConflictMarkers:
  "splitLines (generateConflictMarkers r l) =
     [openMarker] @ splitLines r @ [sepMarker] @ splitLines l @ [closeMarker, []]"
proof -
  have shape: "generateConflictMarkers r l =
      openMarker @ CHR 0x0A # (r @ CHR 0x0A # (sepMarker @ CHR 0x0A #
        (l @ CHR 0x0A # (closeMarker @ CHR 0x0A # []))))"
    by (simp add: generateConflictMarkers_def openMarker_def sepMarker_def closeMarker_def)
  have plain: "splitLines openMarker = [openMarker]" "splitLines sepMarker = [sepMarker]"
    "splitLines closeMarker = [closeMarker]"
    by (simp_all add: splitLines_plain openMarker_def sepMarker_def closeMarker_def)
  show ?thesis
    by (simp only: shape splitLines_append_nl plain splitLines.simps(1) append_assoc)
      simp
qed

lemma markers_distinct [simp]:
  "openMarker \<noteq> closeMarker" "openMarker \<noteq> sepMarker" "closeMarker \<noteq> sepMarker"
  "closeMarker \<noteq> openMarker" "sepMarker \<noteq> openMarker" "sepMarker \<noteq> closeMarker"
  "openMarker \<noteq> []" "closeMarker \<noteq> []" "sepMarker \<noteq> []"
  "[] \<noteq> openMarker" "[] \<noteq> closeMarker" "[] \<noteq> sepMarker"
  by (simp_all add: openMarker_def sepMarker_def closeMarker_def)

lemma scan_local_plain:
  "openMarker \<notin> set ls \<Longrightarrow> closeMarker \<notin> set ls \<Longrightarrow>
   scanBlocks InLocal (ls @ rest) = scanBlocks InLocal rest"
  by (induction ls) auto

lemma scan_remote_plain:
  "openMarker \<notin> set ls \<Longrightarrow> closeMarker \<notin> set ls \<Longrightarrow>
   scanBlocks InRemote (ls @ sepMarker # rest) = scanBlocks InLocal rest"
  by (induction ls) (auto simp add: scan_local_plain)

lemma countBlocks_generateConflictMarkers:
  assumes "plainText r" and "plainText l"
  shows "countBlocks (generateConflictMarkers r l) = 1"
proof -
  have "scanBlocks Outside
          (openMarker # splitLines r @ sepMarker # splitLines l @ [closeMarker, []]) =
        scanBlocks InRemote (splitLines r @ sepMarker # splitLines l @ [closeMarker, []])"
    by simp
  also have "\<dots> = scanBlocks InLocal (splitLines l @ [closeMarker, []])"
    using assms(1) by (simp add: plainText_def scan_remote_plain)
  also have "\<dots> = scanBlocks InLocal [closeMarker, []]"
    using assms(2) by (simp add: plainText_def scan_local_plain)
  also have "\<dots> = 1"
    by simp
  finally show ?thesis
    by (simp add: countBlocks_def splitLines_generateConflictMarkers)
qed

lemma generateConflictMarkers_nonempty: "generateConflictMarkers r l \<noteq> []"
  by (simp add: generateConflictMarkers_def)

subsection \<open>The smart strategy when the three-way merge returns\<close>

lemma smart_run:
  assumes "gitError env = None" and "remoteFile env = Some r" and "fs (dest options) = Some l"
    and "l \<noteq> r" and "\<not> force options" and "mergeStrategy options = ''smart''"
    and "threeWayMerge env [] r l = Returns m"
  shows "fst (main options env (start fs)) = Finished \<and>
     mergeCalls (snd (main options env (start fs))) = [ThreeWayMergeCall [] r l] \<and>
     \<not> prompted (snd (main options env (start fs))) \<and>
     hasConflict (snd (main options env (start fs))) = conflict m \<and>
     mergedText options (snd (main options env (start fs))) =
       Some (if conflict m then generateConflictMarkers r l else result m)"
  using assms
  by (simp add: main_def Let_def mergeByStrategy_def smartMerge_def mergeCalls_def
      prompted_def hasConflict_def mergedText_def backupLocal_trace)

subsection \<open>The smart strategy when the call of line 151 throws\<close>










subsection \<open>The manual-merge document\<close>

lemma manual_document_ends_with_sentinel:
  "\<exists>pre. generateManualMergeFile r l = pre @ sentinelHeading @ NL @ bar51 @ NL @ NL"
proof -
  have "generateManualMergeFile r l =
     (''# MANUAL MERGE REQUIRED'' @ NL @
     bar51 @ NL @
     ''# Instructions:'' @ NL @
     ''# 1. Below you'' @ APO @ ''ll find both the remote and local versions'' @ NL @
     ''# 2. Edit this file to create the merged version you want'' @ NL @
     ''# 3. Save and close when you'' @ APO @ ''re done'' @ NL @
     bar51 @ NL @
     NL @
     ''# REMOTE VERSION'' @ NL @
     bar51 @ NL @
     r @ NL @
     NL @
     ''# LOCAL VERSION'' @ NL @
     bar51 @ NL @
     l @ NL @
     NL) @ sentinelHeading @ NL @ bar51 @ NL @ NL"
    unfolding generateManualMergeFile_def by (simp only: append_assoc)
  then show ?thesis by blast
qed

lemma parse_edited_document:
  "spec_parseManualMerge editedDocument = Inr (NL @ bar51 @ NL @ NL @ ''merged'')"
  by (simp add: spec_parseManualMerge_def editedDocument_def generateManualMergeFile_def
      sentinelHeading_def bar51_def)

lemma parse_without_sentinel:
  "spec_parseManualMerge ''merged by hand'' = Inl MalformedManualMerge"
  by (simp add: spec_parseManualMerge_def sentinelHeading_def)

text \<open>
  C7, as amended. After the manual choice, the editor and the confirmation, the whole
  edited document is written to the destination as it is: nothing is looked for in it,
  nothing is cut from it, and the step succeeds whether or not the document still has
  the sentinel heading. The document offered to the user is the manual-merge template.
\<close>

theorem manual_edit_is_written_whole:
  assumes "promptAction env = manual"
    and "editor env (generateManualMergeFile r l) = Returns doc"
    and "promptConfirmed env"
  shows "mergedText options (applyAction options env r l s) = Some doc \<and>
     last (trace (applyAction options env r l s)) = Spinner Succeed ''Manual merge completed.'' \<and>
     WriteTemp (generateManualMergeFile r l) \<in> set (trace (applyAction options env r l s))"
  using assms
  by (simp add: applyAction_def Let_def mergedText_def)

theorem manual_edit_is_written_whole_witness:
  "mergedText defaults
     (applyAction defaults (world ''new'' wholeTextMerge manual (Returns ''merged by hand''))
        ''new'' ''old'' (start [dest defaults \<mapsto> ''old''])) = Some ''merged by hand''"
  using manual_edit_is_written_whole
    [of "world ''new'' wholeTextMerge manual (Returns ''merged by hand'')" "''new''" "''old''"
        "''merged by hand''" defaults "start [dest defaults \<mapsto> ''old'']"]
  by simp

theorem sentinel_parse_counterexample:
  "spec_parseManualMerge editedDocument = Inr (NL @ bar51 @ NL @ NL @ ''merged'') \<and>
   mergedText defaults
     (applyAction defaults (world ''new'' wholeTextMerge manual (Returns editedDocument))
        ''new'' ''old'' (start [dest defaults \<mapsto> ''old''])) = Some editedDocument \<and>
   editedDocument \<noteq> NL @ bar51 @ NL @ NL @ ''merged'' \<and>
   spec_parseManualMerge ''merged by hand'' = Inl MalformedManualMerge \<and>
   mergedText defaults
     (applyAction defaults (world ''new'' wholeTextMerge manual (Returns ''merged by hand''))
        ''new'' ''old'' (start [dest defaults \<mapsto> ''old''])) = Some ''merged by hand''"
proof -
  have differ: "editedDocument \<noteq> NL @ bar51 @ NL @ NL @ ''merged''"
    by (simp add: editedDocument_def generateManualMergeFile_def)
  show ?thesis
    using differ
    by (simp add: parse_edited_document parse_without_sentinel applyAction_def Let_def
        mergedText_def)
qed

end
